theory Spec2Isabelle
  imports
    Complex_Main
    "HOL-Library.Char_ord"
    "HOL-Library.List_Lexorder"
    "HOL-Library.Product_Lexorder"
    "HOL-Library.Multiset"
begin

section \<open>Data model of \<^verbatim>\<open>app.py\<close>\<close>

text \<open>
  The dashboard reads one table (a pandas DataFrame) and only ever looks at seven of
  its columns. A row maps a column to its cell; \<open>None\<close> is a missing cell (NaN).
  Cells are text, as the spreadsheet's categorical columns are.
\<close>

datatype column =
  Agency | Principle | Area | Job_Title | Regional | Status_Quota | Recruitment_Status

type_synonym row = "column \<rightharpoonup> string"

type_synonym table = "row list"

section \<open>Sidebar filter (lines 52 to 64)\<close>

text \<open>
  \<^verbatim>\<open>filters\<close> is a dict with six keys in a fixed insertion order; each value is what the
  select box returned. The selection record holds those six returned values.
\<close>

record selection =
  sel_agency :: string
  sel_principle :: string
  sel_area :: string
  sel_job_title :: string
  sel_regional :: string
  sel_status_quota :: string

definition filters :: "selection \<Rightarrow> (column \<times> string) list" where
  "filters s =
     [(Agency, sel_agency s), (Principle, sel_principle s), (Area, sel_area s),
      (Job_Title, sel_job_title s), (Regional, sel_regional s),
      (Status_Quota, sel_status_quota s)]"

text \<open>
  \<^verbatim>\<open>for col, val in filters.items(): if val != "All": filtered = filtered[filtered[col] == val]\<close>.
  The elementwise comparison of a missing cell with a string is False.
\<close>

fun apply_items :: "(column \<times> string) list \<Rightarrow> table \<Rightarrow> table" where
  "apply_items [] filtered = filtered"
| "apply_items ((col, v) # items) filtered =
     apply_items items
       (if v \<noteq> ''All'' then filter (\<lambda>r. r col = Some v) filtered else filtered)"

definition filtered :: "table \<Rightarrow> selection \<Rightarrow> table" where
  "filtered df s = apply_items (filters s) df"

definition all_selection :: selection where
  "all_selection =
     \<lparr>sel_agency = ''All'', sel_principle = ''All'', sel_area = ''All'',
      sel_job_title = ''All'', sel_regional = ''All'', sel_status_quota = ''All''\<rparr>"

text \<open>
  What the specification says a row must satisfy to survive a selection: in each of the
  six dimensions, the selection is "All" or the row's cell is exactly the selected value.
\<close>

definition matches :: "selection \<Rightarrow> row \<Rightarrow> bool" where
  "matches s r =
     ((sel_agency s = ''All'' \<or> r Agency = Some (sel_agency s))
      \<and> (sel_principle s = ''All'' \<or> r Principle = Some (sel_principle s))
      \<and> (sel_area s = ''All'' \<or> r Area = Some (sel_area s))
      \<and> (sel_job_title s = ''All'' \<or> r Job_Title = Some (sel_job_title s))
      \<and> (sel_regional s = ''All'' \<or> r Regional = Some (sel_regional s))
      \<and> (sel_status_quota s = ''All'' \<or> r Status_Quota = Some (sel_status_quota s)))"

section \<open>KPI (lines 71 to 74)\<close>

text \<open>
  \<^verbatim>\<open>(data["Recruitment Status"] == name).sum()\<close>: the number of rows whose status cell
  is exactly that string.
\<close>

definition status_count :: "string \<Rightarrow> table \<Rightarrow> nat" where
  "status_count name data = length (filter (\<lambda>r. r Recruitment_Status = Some name) data)"

text \<open>
  \<^verbatim>\<open>return (1-(r / (r+o)) * 100) if o > 0 else 0\<close>. In Python \<open>*\<close> binds tighter than
  binary \<open>-\<close>, so the returned number is \<open>1 - ((r / (r+o)) * 100)\<close>. The float
  arithmetic is taken as exact rational arithmetic.
\<close>

definition fulfillment :: "table \<Rightarrow> rat" where
  "fulfillment data =
     (let oc = status_count ''OPEN'' data;
          rc = status_count ''RECRUIT'' data
      in if oc > 0 then 1 - (of_nat rc / of_nat (rc + oc)) * 100 else 0)"

text \<open>The formula of the specification, for comparison.\<close>

definition spec_fulfillment :: "nat \<Rightarrow> nat \<Rightarrow> rat" where
  "spec_fulfillment oc rc = (1 - of_nat rc / of_nat (oc + rc)) * 100"

text \<open>Rows used in the concrete scenarios.\<close>

definition status_row :: "string \<Rightarrow> row" where
  "status_row st = [Recruitment_Status \<mapsto> st]"

definition agency_row :: "string \<Rightarrow> string \<Rightarrow> row" where
  "agency_row ag job = [Agency \<mapsto> ag, Job_Title \<mapsto> job]"

definition scenario_subset :: table where
  "scenario_subset = replicate 6 (status_row ''OPEN'') @ replicate 4 (status_row ''RECRUIT'')"

definition agency_table :: table where
  "agency_table =
     [agency_row ''AMK'' ''1'', agency_row ''AKP'' ''2'', agency_row ''AMK'' ''3'',
      agency_row ''AMK'' ''4'', agency_row ''AKP'' ''5'', agency_row ''AMK'' ''6'',
      agency_row ''AMK'' ''7'', agency_row ''AMK'' ''8'', agency_row ''AKP'' ''9'',
      agency_row ''AMK'' ''10'']"

definition amk_selection :: selection where
  "amk_selection = all_selection\<lparr>sel_agency := ''AMK''\<rparr>"

text \<open>
  A row with a cell in each of the six dimensions, a selection that constrains all six,
  and a table whose rows differ from the selection in one dimension each.
\<close>

definition full_row :: "string \<Rightarrow> string \<Rightarrow> string \<Rightarrow> string \<Rightarrow> string \<Rightarrow> string \<Rightarrow> row" where
  "full_row ag pr ar jt rg sq =
     [Agency \<mapsto> ag, Principle \<mapsto> pr, Area \<mapsto> ar, Job_Title \<mapsto> jt, Regional \<mapsto> rg,
      Status_Quota \<mapsto> sq]"

definition full_selection :: selection where
  "full_selection =
     \<lparr>sel_agency = ''AMK'', sel_principle = ''P1'', sel_area = ''North'',
      sel_job_title = ''Clerk'', sel_regional = ''X'', sel_status_quota = ''Active''\<rparr>"

definition full_table :: table where
  "full_table =
     [full_row ''AKP'' ''P1'' ''North'' ''Clerk'' ''X'' ''Active'',
      full_row ''AMK'' ''P1'' ''North'' ''Clerk'' ''X'' ''Active'',
      full_row ''AMK'' ''P2'' ''North'' ''Clerk'' ''X'' ''Active'',
      full_row ''AMK'' ''P1'' ''South'' ''Clerk'' ''X'' ''Active'',
      full_row ''AMK'' ''P1'' ''North'' ''Driver'' ''X'' ''Active'',
      full_row ''AMK'' ''P1'' ''North'' ''Clerk'' ''Y'' ''Active'',
      full_row ''AMK'' ''P1'' ''North'' ''Clerk'' ''X'' ''Closed'',
      (full_row ''AMK'' ''P1'' ''North'' ''Clerk'' ''X'' ''Active'')(Regional := None),
      (full_row ''AMK'' ''P1'' ''North'' ''Clerk'' ''X'' ''Active'')(Recruitment_Status \<mapsto> ''OPEN'')]"

text \<open>A complete row with the cell of one column missing.\<close>

definition missing_row :: "column \<Rightarrow> row" where
  "missing_row c = (full_row ''AMK'' ''P1'' ''North'' ''Clerk'' ''X'' ''Active'')(c := None)"

section \<open>Aggregation for the charts\<close>

text \<open>
  \<^verbatim>\<open>data.groupby([c1, c2]).size()\<close>: one entry per pair of key values that occurs, keys in
  ascending order, each with its number of rows. pandas leaves out of the groups every
  row with a missing cell in a key column (\<^verbatim>\<open>dropna=True\<close> is the default).
\<close>

definition group_keys :: "column \<Rightarrow> column \<Rightarrow> table \<Rightarrow> (string \<times> string) list" where
  "group_keys c1 c2 data =
     List.map_filter
       (\<lambda>r. case r c1 of None \<Rightarrow> None
            | Some a \<Rightarrow> (case r c2 of None \<Rightarrow> None | Some b \<Rightarrow> Some (a, b)))
       data"

definition groupby_size ::
  "column \<Rightarrow> column \<Rightarrow> table \<Rightarrow> ((string \<times> string) \<times> nat) list" where
  "groupby_size c1 c2 data =
     (let ks = group_keys c1 c2 data
      in map (\<lambda>k. (k, count_list ks k)) (sort (remdups ks)))"

text \<open>Lines 92 to 97: the rows (Principle, Recruitment Status, Count) of the first chart.\<close>

definition principle_chart :: "table \<Rightarrow> ((string \<times> string) \<times> nat) list" where
  "principle_chart data = groupby_size Principle Recruitment_Status data"

text \<open>
  Lines 100 to 106: \<^verbatim>\<open>principle_chart.groupby("Principle")["Count"].sum()\<close> adds the counts
  of each group, groups ascending; \<^verbatim>\<open>sort_values(ascending=False).index\<close> lists the groups
  by descending sum. pandas reverses the series, sorts it ascending and reverses the
  result; its default sort (numpy's quicksort) fixes no order among equal sums. The model
  sorts stably, and nothing proved below depends on the order among equal sums.
\<close>

definition groupby_sum :: "((string \<times> string) \<times> nat) list \<Rightarrow> (string \<times> nat) list" where
  "groupby_sum chart =
     map (\<lambda>g. (g, sum_list (map snd (filter (\<lambda>e. fst (fst e) = g) chart))))
       (sort (remdups (map (\<lambda>e. fst (fst e)) chart)))"

definition sort_values_desc :: "(string \<times> nat) list \<Rightarrow> (string \<times> nat) list" where
  "sort_values_desc series = rev (sort_key snd (rev series))"

definition order :: "((string \<times> string) \<times> nat) list \<Rightarrow> string list" where
  "order chart = map fst (sort_values_desc (groupby_sum chart))"

text \<open>
  Lines 203 to 215. \<^verbatim>\<open>.unstack(fill_value=0)\<close> turns the sizes into a frame with one row
  per group value (its index) and one column per status value that occurs, 0 where a
  pair has no entry.
\<close>

record frame =
  regional :: "string list"
  status_columns :: "(string \<times> nat list) list"

definition unstack :: "((string \<times> string) \<times> nat) list \<Rightarrow> frame" where
  "unstack sizes =
     (let idx = sort (remdups (map (\<lambda>e. fst (fst e)) sizes));
          cols = sort (remdups (map (\<lambda>e. snd (fst e)) sizes))
      in \<lparr>regional = idx,
          status_columns =
            map (\<lambda>c. (c, map (\<lambda>g. case map_of sizes (g, c) of Some n \<Rightarrow> n | None \<Rightarrow> 0) idx))
              cols\<rparr>)"

text \<open>
  \<^verbatim>\<open>.reset_index()\<close> makes the index a column named after the grouping column. pandas
  refuses to insert it when the frame already has a column of that name, which happens
  when a status value is that very text, and raises ValueError.
\<close>

datatype error = ZeroDivisionError | ValueError

definition reset_index :: "string \<Rightarrow> frame \<Rightarrow> error + frame" where
  "reset_index index_name fr =
     (if index_name \<in> set (map fst (status_columns fr)) then Inl ValueError else Inr fr)"

text \<open>
  \<^verbatim>\<open>temp.get(name, 0)\<close> is the column when the frame has it and the Python integer 0
  otherwise, so the arithmetic of line 213 to 215 runs on a column or on a scalar.
\<close>

datatype operand = Scalar nat | Series "nat list"

definition frame_get :: "frame \<Rightarrow> string \<Rightarrow> nat \<Rightarrow> operand" where
  "frame_get temp name dflt =
     (case map_of (status_columns temp) name of
        Some xs \<Rightarrow> Series xs
      | None \<Rightarrow> Scalar dflt)"

fun add_operand :: "operand \<Rightarrow> operand \<Rightarrow> operand" where
  "add_operand (Scalar a) (Scalar b) = Scalar (a + b)"
| "add_operand (Scalar a) (Series ys) = Series (map (\<lambda>y. a + y) ys)"
| "add_operand (Series xs) (Scalar b) = Series (map (\<lambda>x. x + b) xs)"
| "add_operand (Series xs) (Series ys) = Series (map2 (+) xs ys)"

text \<open>
  Elementwise division of integer columns gives floats: NaN for 0/0 and infinity for a
  positive count over 0. Division of two Python integers raises when the divisor is 0.
\<close>

datatype npfloat = Finite rat | PosInf | NaN

definition np_truediv :: "nat \<Rightarrow> nat \<Rightarrow> npfloat" where
  "np_truediv a b =
     (if b \<noteq> 0 then Finite (of_nat a / of_nat b) else if a = 0 then NaN else PosInf)"

datatype quotient = QScalar rat | QSeries "npfloat list"

fun truediv :: "operand \<Rightarrow> operand \<Rightarrow> error + quotient" where
  "truediv (Scalar a) (Scalar b) =
     (if b = 0 then Inl ZeroDivisionError else Inr (QScalar (of_nat a / of_nat b)))"
| "truediv (Scalar a) (Series ys) = Inr (QSeries (map (np_truediv a) ys))"
| "truediv (Series xs) (Scalar b) = Inr (QSeries (map (\<lambda>x. np_truediv x b) xs))"
| "truediv (Series xs) (Series ys) = Inr (QSeries (map2 np_truediv xs ys))"

fun times100 :: "npfloat \<Rightarrow> npfloat" where
  "times100 (Finite x) = Finite (x * 100)"
| "times100 PosInf = PosInf"
| "times100 NaN = NaN"

text \<open>
  The result is what the chart plots: the pairs (Regional, Fulfillment %) of the frame,
  or the exception that line 209 or line 213 raises. A scalar quotient would be assigned
  to every row.
\<close>

definition regional_chart :: "table \<Rightarrow> error + (string \<times> npfloat) list" where
  "regional_chart data =
     (case reset_index ''Regional'' (unstack (groupby_size Regional Recruitment_Status data)) of
        Inl e \<Rightarrow> Inl e
      | Inr temp \<Rightarrow>
          (case truediv (frame_get temp ''RECRUIT'' 0)
                  (add_operand (frame_get temp ''OPEN'' 0) (frame_get temp ''RECRUIT'' 0)) of
             Inl e \<Rightarrow> Inl e
           | Inr (QScalar q) \<Rightarrow> Inr (map (\<lambda>g. (g, Finite (q * 100))) (regional temp))
           | Inr (QSeries qs) \<Rightarrow> Inr (zip (regional temp) (map times100 qs))))"

text \<open>
  The quantities the specification speaks of: the rows of a group with a given status,
  the rows of a group that have a status at all, and the per-group percentage
  \<open>recruit / (open + recruit) * 100\<close>, not a number when the denominator is 0.
\<close>

definition group_status_count :: "column \<Rightarrow> string \<Rightarrow> string \<Rightarrow> table \<Rightarrow> nat" where
  "group_status_count c g st data =
     length (filter (\<lambda>r. r c = Some g \<and> r Recruitment_Status = Some st) data)"

definition group_total :: "column \<Rightarrow> string \<Rightarrow> table \<Rightarrow> nat" where
  "group_total c g data =
     length (filter (\<lambda>r. r c = Some g \<and> r Recruitment_Status \<noteq> None) data)"

definition spec_group_pct :: "nat \<Rightarrow> nat \<Rightarrow> npfloat" where
  "spec_group_pct oc rc =
     (if oc + rc = 0 then NaN else Finite (of_nat rc / of_nat (oc + rc) * 100))"

definition groups_with_status :: "column \<Rightarrow> table \<Rightarrow> string list" where
  "groups_with_status c data = sort (remdups (map fst (group_keys c Recruitment_Status data)))"

text \<open>Rows for the concrete scenarios of the charts.\<close>

definition chart_row :: "column \<Rightarrow> string \<Rightarrow> string \<Rightarrow> row" where
  "chart_row c g st = [c \<mapsto> g, Recruitment_Status \<mapsto> st]"

definition no_status_row :: "column \<Rightarrow> string \<Rightarrow> row" where
  "no_status_row c g = [c \<mapsto> g]"

definition chart_table :: table where
  "chart_table =
     [chart_row Principle ''B'' ''OPEN'', chart_row Principle ''A'' ''OPEN'',
      chart_row Principle ''B'' ''RECRUIT'', no_status_row Principle ''A'',
      status_row ''OPEN'', chart_row Principle ''B'' ''OPEN'']"

definition region_table :: table where
  "region_table =
     [chart_row Regional ''A'' ''OPEN'', chart_row Regional ''A'' ''RECRUIT'',
      chart_row Regional ''B'' ''HOLD'', chart_row Regional ''A'' ''OPEN'',
      chart_row Regional ''A'' ''RECRUIT'', chart_row Regional ''A'' ''OPEN'']"

section \<open>Properties of the filter\<close>

lemma apply_items_filter:
  "apply_items items t =
     filter (\<lambda>r. list_all (\<lambda>(col, v). v = ''All'' \<or> r col = Some v) items) t"
proof (induction items arbitrary: t)
  case Nil
  show ?case by simp
next
  case (Cons item items)
  obtain col v where item: "item = (col, v)" by (cases item)
  show ?case
    unfolding item by (simp add: Cons.IH conj_commute)
qed

text \<open>
  C5. With all six dimensions set to "All" the filter returns the table it was given,
  unchanged.
\<close>

theorem filtered_all_identity: "filtered df all_selection = df"
  by (simp add: filtered_def filters_def all_selection_def)

text \<open>
  C6. The filter keeps exactly the rows that equal the selected value in every
  dimension not set to "All" (string equality, so case-sensitive and with no partial
  match), all constraints together; \<open>filter\<close> keeps the surviving rows in the order of
  the table, and the result may be empty.
\<close>

theorem filtered_exact: "filtered df s = filter (matches s) df"
  unfolding filtered_def apply_items_filter
  by (rule filter_cong) (simp_all add: matches_def filters_def)

theorem filtered_exact_witness:
  "filtered agency_table amk_selection =
     [agency_row ''AMK'' ''1'', agency_row ''AMK'' ''3'', agency_row ''AMK'' ''4'',
      agency_row ''AMK'' ''6'', agency_row ''AMK'' ''7'', agency_row ''AMK'' ''8'',
      agency_row ''AMK'' ''10'']
   \<and> filtered [agency_row ''AKP'' ''2''] amk_selection = []
   \<and> filtered [agency_row ''amk'' ''2''] amk_selection = []
   \<and> filtered full_table full_selection =
       [full_row ''AMK'' ''P1'' ''North'' ''Clerk'' ''X'' ''Active'',
        (full_row ''AMK'' ''P1'' ''North'' ''Clerk'' ''X'' ''Active'')(Recruitment_Status \<mapsto> ''OPEN'')]"
  using filtered_exact [of agency_table amk_selection]
    filtered_exact [of "[agency_row ''AKP'' ''2'']" amk_selection]
    filtered_exact [of "[agency_row ''amk'' ''2'']" amk_selection]
    filtered_exact [of full_table full_selection]
  by (simp add: agency_table_def amk_selection_def all_selection_def matches_def
      agency_row_def full_table_def full_selection_def full_row_def)

text \<open>
  C10. A row whose cell is missing in a dimension that the selection constrains (a
  value other than "All") is never in the filtered view.
\<close>

theorem filtered_drops_missing:
  assumes "(sel_agency s \<noteq> ''All'' \<and> r Agency = None)
         \<or> (sel_principle s \<noteq> ''All'' \<and> r Principle = None)
         \<or> (sel_area s \<noteq> ''All'' \<and> r Area = None)
         \<or> (sel_job_title s \<noteq> ''All'' \<and> r Job_Title = None)
         \<or> (sel_regional s \<noteq> ''All'' \<and> r Regional = None)
         \<or> (sel_status_quota s \<noteq> ''All'' \<and> r Status_Quota = None)"
  shows "r \<notin> set (filtered df s)"
proof
  assume "r \<in> set (filtered df s)"
  then have "list_all (\<lambda>(col, v). v = ''All'' \<or> r col = Some v) (filters s)"
    by (simp add: filtered_def apply_items_filter)
  then have "(sel_agency s = ''All'' \<or> r Agency = Some (sel_agency s))
      \<and> (sel_principle s = ''All'' \<or> r Principle = Some (sel_principle s))
      \<and> (sel_area s = ''All'' \<or> r Area = Some (sel_area s))
      \<and> (sel_job_title s = ''All'' \<or> r Job_Title = Some (sel_job_title s))
      \<and> (sel_regional s = ''All'' \<or> r Regional = Some (sel_regional s))
      \<and> (sel_status_quota s = ''All'' \<or> r Status_Quota = Some (sel_status_quota s))"
    by (simp add: filters_def)
  with assms show False by auto
qed

theorem filtered_drops_missing_witness:
  "sel_agency (all_selection\<lparr>sel_agency := ''AMK''\<rparr>) \<noteq> ''All''
   \<and> missing_row Agency Agency = None
   \<and> missing_row Agency
       \<notin> set (filtered [missing_row Agency] (all_selection\<lparr>sel_agency := ''AMK''\<rparr>))
   \<and> sel_principle (all_selection\<lparr>sel_principle := ''P1''\<rparr>) \<noteq> ''All''
   \<and> missing_row Principle Principle = None
   \<and> missing_row Principle
       \<notin> set (filtered [missing_row Principle] (all_selection\<lparr>sel_principle := ''P1''\<rparr>))
   \<and> sel_area (all_selection\<lparr>sel_area := ''North''\<rparr>) \<noteq> ''All''
   \<and> missing_row Area Area = None
   \<and> missing_row Area
       \<notin> set (filtered [missing_row Area] (all_selection\<lparr>sel_area := ''North''\<rparr>))
   \<and> sel_job_title (all_selection\<lparr>sel_job_title := ''Clerk''\<rparr>) \<noteq> ''All''
   \<and> missing_row Job_Title Job_Title = None
   \<and> missing_row Job_Title
       \<notin> set (filtered [missing_row Job_Title] (all_selection\<lparr>sel_job_title := ''Clerk''\<rparr>))
   \<and> sel_regional (all_selection\<lparr>sel_regional := ''X''\<rparr>) \<noteq> ''All''
   \<and> missing_row Regional Regional = None
   \<and> missing_row Regional
       \<notin> set (filtered [missing_row Regional] (all_selection\<lparr>sel_regional := ''X''\<rparr>))
   \<and> sel_status_quota (all_selection\<lparr>sel_status_quota := ''Active''\<rparr>) \<noteq> ''All''
   \<and> missing_row Status_Quota Status_Quota = None
   \<and> missing_row Status_Quota
       \<notin> set (filtered [missing_row Status_Quota]
                (all_selection\<lparr>sel_status_quota := ''Active''\<rparr>))"
proof -
  have ag: "sel_agency (all_selection\<lparr>sel_agency := ''AMK''\<rparr>) \<noteq> ''All''
      \<and> missing_row Agency Agency = None"
    by (simp add: missing_row_def)
  have pr: "sel_principle (all_selection\<lparr>sel_principle := ''P1''\<rparr>) \<noteq> ''All''
      \<and> missing_row Principle Principle = None"
    by (simp add: missing_row_def)
  have ar: "sel_area (all_selection\<lparr>sel_area := ''North''\<rparr>) \<noteq> ''All''
      \<and> missing_row Area Area = None"
    by (simp add: missing_row_def)
  have jt: "sel_job_title (all_selection\<lparr>sel_job_title := ''Clerk''\<rparr>) \<noteq> ''All''
      \<and> missing_row Job_Title Job_Title = None"
    by (simp add: missing_row_def)
  have rg: "sel_regional (all_selection\<lparr>sel_regional := ''X''\<rparr>) \<noteq> ''All''
      \<and> missing_row Regional Regional = None"
    by (simp add: missing_row_def)
  have sq: "sel_status_quota (all_selection\<lparr>sel_status_quota := ''Active''\<rparr>) \<noteq> ''All''
      \<and> missing_row Status_Quota Status_Quota = None"
    by (simp add: missing_row_def)
  have "missing_row Agency
       \<notin> set (filtered [missing_row Agency] (all_selection\<lparr>sel_agency := ''AMK''\<rparr>))"
    using ag by (intro filtered_drops_missing) blast
  moreover have "missing_row Principle
       \<notin> set (filtered [missing_row Principle] (all_selection\<lparr>sel_principle := ''P1''\<rparr>))"
    using pr by (intro filtered_drops_missing) blast
  moreover have "missing_row Area
       \<notin> set (filtered [missing_row Area] (all_selection\<lparr>sel_area := ''North''\<rparr>))"
    using ar by (intro filtered_drops_missing) blast
  moreover have "missing_row Job_Title
       \<notin> set (filtered [missing_row Job_Title] (all_selection\<lparr>sel_job_title := ''Clerk''\<rparr>))"
    using jt by (intro filtered_drops_missing) blast
  moreover have "missing_row Regional
       \<notin> set (filtered [missing_row Regional] (all_selection\<lparr>sel_regional := ''X''\<rparr>))"
    using rg by (intro filtered_drops_missing) blast
  moreover have "missing_row Status_Quota
       \<notin> set (filtered [missing_row Status_Quota]
                (all_selection\<lparr>sel_status_quota := ''Active''\<rparr>))"
    using sq by (intro filtered_drops_missing) blast
  ultimately show ?thesis
    using ag pr ar jt rg sq by blast
qed

section \<open>Properties of the KPI\<close>

lemma status_count_append:
  "status_count name (xs @ ys) = status_count name xs + status_count name ys"
  by (simp add: status_count_def)

lemma status_count_replicate:
  "status_count name (replicate n (status_row st)) = (if st = name then n else 0)"
  by (simp add: status_count_def status_row_def)

lemma fulfillment_open:
  "0 < status_count ''OPEN'' data \<Longrightarrow>
   fulfillment data =
     1 - of_nat (status_count ''RECRUIT'' data)
           / of_nat (status_count ''RECRUIT'' data + status_count ''OPEN'' data) * 100"
  by (simp add: fulfillment_def Let_def)

text \<open>
  C1. The specification's value for a subset with open rows is
  \<open>(1 - recruit / (open + recruit)) * 100\<close>, 60 for 6 OPEN and 4 RECRUIT. The code
  multiplies before it subtracts: on that subset of 10 rows it returns
  \<open>1 - (4 / 10) * 100 = -39\<close>.
\<close>

theorem fulfillment_scenario:
  "length scenario_subset = 10
   \<and> status_count ''OPEN'' scenario_subset = 6
   \<and> status_count ''RECRUIT'' scenario_subset = 4
   \<and> spec_fulfillment 6 4 = 60
   \<and> fulfillment scenario_subset = - 39"
  by (simp add: scenario_subset_def fulfillment_def spec_fulfillment_def
      status_count_append status_count_replicate)

text \<open>
  C2. The specification's range for the KPI is the interval from 0 to 100. On one OPEN
  and one RECRUIT row the code returns \<open>1 - (1 / 2) * 100 = -49\<close>, outside that range.
\<close>

theorem fulfillment_out_of_range:
  "status_count ''OPEN'' [status_row ''OPEN'', status_row ''RECRUIT''] = 1
   \<and> fulfillment [status_row ''OPEN'', status_row ''RECRUIT''] = - 49
   \<and> \<not> (0 \<le> fulfillment [status_row ''OPEN'', status_row ''RECRUIT'']
         \<and> fulfillment [status_row ''OPEN'', status_row ''RECRUIT''] \<le> 100)"
  by (simp add: fulfillment_def status_count_def status_row_def)

text \<open>
  C3. When no row of the subset has status "OPEN", \<open>fulfillment\<close> returns exactly 0,
  whatever the number of "RECRUIT" rows.
\<close>

theorem fulfillment_no_open:
  "status_count ''OPEN'' data = 0 \<Longrightarrow> fulfillment data = 0"
  by (simp add: fulfillment_def)

theorem fulfillment_no_open_witness:
  "status_count ''OPEN'' (replicate 5 (status_row ''RECRUIT'')) = 0
   \<and> status_count ''RECRUIT'' (replicate 5 (status_row ''RECRUIT'')) = 5
   \<and> fulfillment (replicate 5 (status_row ''RECRUIT'')) = 0
   \<and> fulfillment [] = 0"
proof -
  have h: "status_count ''OPEN'' (replicate 5 (status_row ''RECRUIT'')) = 0"
    by (simp add: status_count_def status_row_def)
  have e: "status_count ''OPEN'' [] = 0"
    by (simp add: status_count_def)
  have r: "status_count ''RECRUIT'' (replicate 5 (status_row ''RECRUIT'')) = 5"
    by (simp add: status_count_def status_row_def)
  show ?thesis
    using h r fulfillment_no_open [OF h] fulfillment_no_open [OF e] by simp
qed

lemma recruited_fraction_mono:
  fixes oc r1 r2 :: nat
  assumes "0 < oc" "r1 \<le> r2"
  shows "(of_nat r1 :: rat) / of_nat (r1 + oc) \<le> of_nat r2 / of_nat (r2 + oc)"
proof -
  have "r1 * (r2 + oc) \<le> r2 * (r1 + oc)"
    using assms by (simp add: algebra_simps)
  then have "(of_nat (r1 * (r2 + oc)) :: rat) \<le> of_nat (r2 * (r1 + oc))"
    by (simp only: of_nat_le_iff)
  then have "(of_nat r1 :: rat) * of_nat (r2 + oc) \<le> of_nat r2 * of_nat (r1 + oc)"
    by (simp only: of_nat_mult)
  moreover have "(0::rat) < of_nat (r1 + oc)" "(0::rat) < of_nat (r2 + oc)"
    using assms by simp_all
  ultimately show ?thesis
    by (simp add: frac_le_eq divide_le_0_iff mult.commute)
qed

text \<open>
  C8. With the number of OPEN rows fixed and positive, more RECRUIT rows never give a
  larger \<open>fulfillment\<close>.
\<close>

theorem fulfillment_decreasing:
  assumes "status_count ''OPEN'' d1 = status_count ''OPEN'' d2"
    and "0 < status_count ''OPEN'' d1"
    and "status_count ''RECRUIT'' d1 \<le> status_count ''RECRUIT'' d2"
  shows "fulfillment d2 \<le> fulfillment d1"
proof -
  let ?f1 = "(of_nat (status_count ''RECRUIT'' d1) :: rat)
               / of_nat (status_count ''RECRUIT'' d1 + status_count ''OPEN'' d1)"
  let ?f2 = "(of_nat (status_count ''RECRUIT'' d2) :: rat)
               / of_nat (status_count ''RECRUIT'' d2 + status_count ''OPEN'' d1)"
  have "?f1 \<le> ?f2"
    by (rule recruited_fraction_mono [OF assms(2) assms(3)])
  then have "?f1 * 100 \<le> ?f2 * 100"
    by (rule mult_right_mono) simp
  then have "1 - ?f2 * 100 \<le> 1 - ?f1 * 100"
    by (rule diff_left_mono)
  moreover have "fulfillment d1 = 1 - ?f1 * 100"
    using assms(2) by (rule fulfillment_open)
  moreover have "fulfillment d2 = 1 - ?f2 * 100"
    using assms(1,2) by (simp add: fulfillment_open)
  ultimately show ?thesis by simp
qed

theorem fulfillment_decreasing_witness:
  "status_count ''OPEN'' [status_row ''OPEN'']
     = status_count ''OPEN'' [status_row ''OPEN'', status_row ''RECRUIT'']
   \<and> 0 < status_count ''OPEN'' [status_row ''OPEN'']
   \<and> status_count ''RECRUIT'' [status_row ''OPEN'']
       \<le> status_count ''RECRUIT'' [status_row ''OPEN'', status_row ''RECRUIT'']
   \<and> fulfillment [status_row ''OPEN'', status_row ''RECRUIT'']
       \<le> fulfillment [status_row ''OPEN'']
   \<and> fulfillment [status_row ''OPEN''] = 1"
proof -
  let ?d1 = "[status_row ''OPEN'']"
  let ?d2 = "[status_row ''OPEN'', status_row ''RECRUIT'']"
  have a: "status_count ''OPEN'' ?d1 = status_count ''OPEN'' ?d2"
    by (simp add: status_count_def status_row_def)
  have b: "0 < status_count ''OPEN'' ?d1"
    by (simp add: status_count_def status_row_def)
  have c: "status_count ''RECRUIT'' ?d1 \<le> status_count ''RECRUIT'' ?d2"
    by (simp add: status_count_def status_row_def)
  have d: "fulfillment ?d1 = 1"
    by (simp add: fulfillment_def status_count_def status_row_def)
  show ?thesis
    using a b c d fulfillment_decreasing [OF a b c] by simp
qed

section \<open>Properties of the aggregation\<close>

lemma length_group_keys:
  "length (group_keys c1 c2 data) = length (filter (\<lambda>r. r c1 \<noteq> None \<and> r c2 \<noteq> None) data)"
  by (induction data) (auto simp: group_keys_def split: option.splits)

lemma count_group_keys:
  "count_list (group_keys c1 c2 data) (g, st) =
     length (filter (\<lambda>r. r c1 = Some g \<and> r c2 = Some st) data)"
  by (induction data) (auto simp: group_keys_def split: option.splits)

lemma filter_fst_group_keys:
  "length (filter (\<lambda>k. fst k = g) (group_keys c1 c2 data)) =
     length (filter (\<lambda>r. r c1 = Some g \<and> r c2 \<noteq> None) data)"
  by (induction data) (auto simp: group_keys_def split: option.splits)

lemma set_group_keys:
  "set (group_keys c1 c2 data) = {(a, b). \<exists>r \<in> set data. r c1 = Some a \<and> r c2 = Some b}"
  by (induction data) (auto simp: group_keys_def split: option.splits)

lemma count_list_filter:
  "count_list (filter P xs) x = (if P x then count_list xs x else 0)"
  by (induction xs) auto

lemma sum_count_list_distinct:
  assumes "distinct xs" and "set xs = {k \<in> set ks. P k}"
  shows "sum_list (map (count_list ks) xs) = length (filter P ks)"
proof -
  have "sum_list (map (count_list ks) xs) = sum (count_list ks) (set xs)"
    using assms(1) by (rule sum_list_distinct_conv_sum_set)
  also have "\<dots> = sum (count_list (filter P ks)) (set (filter P ks))"
    using assms(2) by (intro sum.cong) (auto simp: count_list_filter)
  also have "\<dots> = length (filter P ks)"
    by (rule sum_count_set) simp_all
  finally show ?thesis .
qed

lemma map_fst_groupby_size:
  "map fst (groupby_size c1 c2 data) = sort (remdups (group_keys c1 c2 data))"
  by (simp add: groupby_size_def Let_def comp_def)

lemma map_snd_groupby_size:
  "map snd (groupby_size c1 c2 data) =
     map (count_list (group_keys c1 c2 data)) (sort (remdups (group_keys c1 c2 data)))"
  by (simp add: groupby_size_def Let_def comp_def)

lemma groupby_size_positive:
  assumes "e \<in> set (groupby_size c1 c2 data)"
  shows "0 < snd e"
proof -
  from assms obtain k where k: "k \<in> set (group_keys c1 c2 data)"
    and e: "e = (k, count_list (group_keys c1 c2 data) k)"
    by (auto simp: groupby_size_def Let_def)
  from k have "count_list (group_keys c1 c2 data) k \<noteq> 0"
    by (simp add: count_list_0_iff)
  with e show ?thesis by simp
qed

lemma groupby_size_total:
  "sum_list (map snd (groupby_size c1 c2 data)) =
     length (filter (\<lambda>r. r c1 \<noteq> None \<and> r c2 \<noteq> None) data)"
proof -
  let ?ks = "group_keys c1 c2 data"
  have "sum_list (map (count_list ?ks) (sort (remdups ?ks))) = length (filter (\<lambda>k. True) ?ks)"
    by (rule sum_count_list_distinct) simp_all
  then show ?thesis
    by (simp add: map_snd_groupby_size length_group_keys)
qed

lemma groupby_size_entry:
  assumes "e \<in> set (groupby_size c Recruitment_Status data)"
  shows "snd e = group_status_count c (fst (fst e)) (snd (fst e)) data"
proof -
  from assms obtain k where "e = (k, count_list (group_keys c Recruitment_Status data) k)"
    by (auto simp: groupby_size_def Let_def)
  then show ?thesis
    by (cases k) (simp add: count_group_keys group_status_count_def)
qed

text \<open>
  C7, in the form that holds of the code. No emitted (group, status) pair has count 0:
  each emitted count is the number of rows with that group and that status, at least
  one. The emitted counts add up to the number of rows of the subset that have both a
  group value and a Recruitment Status. \<open>principle_chart\<close> is the case \<open>col = Principle\<close>.
\<close>

theorem groupby_size_counts:
  "(\<forall>e \<in> set (groupby_size col Recruitment_Status data).
      0 < snd e \<and> snd e = group_status_count col (fst (fst e)) (snd (fst e)) data)
   \<and> sum_list (map snd (groupby_size col Recruitment_Status data)) =
       length (filter (\<lambda>r. r col \<noteq> None \<and> r Recruitment_Status \<noteq> None) data)"
  using groupby_size_positive groupby_size_entry groupby_size_total by blast

theorem groupby_size_counts_witness:
  "principle_chart chart_table =
     [((''A'', ''OPEN''), 1), ((''B'', ''OPEN''), 2), ((''B'', ''RECRUIT''), 1)]
   \<and> sum_list (map snd (principle_chart chart_table)) = 4
   \<and> length chart_table = 6"
proof -
  have e: "principle_chart chart_table =
     [((''A'', ''OPEN''), 1), ((''B'', ''OPEN''), 2), ((''B'', ''RECRUIT''), 1)]"
    by code_simp
  have n: "length chart_table = 6"
    by (simp add: chart_table_def)
  have t: "sum_list (map snd (principle_chart chart_table)) =
      length (filter (\<lambda>r. r Principle \<noteq> None \<and> r Recruitment_Status \<noteq> None) chart_table)"
    unfolding principle_chart_def
    using groupby_size_counts [of Principle chart_table] by blast
  have "sum_list (map snd (principle_chart chart_table)) = 4"
    unfolding t by (simp add: chart_table_def chart_row_def no_status_row_def status_row_def)
  with e n show ?thesis by simp
qed

text \<open>
  C7 as stated fails: a row without a Principle is in no pair, so the counts of a subset
  of two rows can add up to 1.
\<close>

theorem groupby_size_counts_counterexample:
  "principle_chart [chart_row Principle ''P'' ''OPEN'', status_row ''OPEN''] =
     [((''P'', ''OPEN''), 1)]
   \<and> sum_list (map snd (principle_chart [chart_row Principle ''P'' ''OPEN'', status_row ''OPEN'']))
       \<noteq> length [chart_row Principle ''P'' ''OPEN'', status_row ''OPEN'']"
proof -
  have e: "principle_chart [chart_row Principle ''P'' ''OPEN'', status_row ''OPEN''] =
     [((''P'', ''OPEN''), 1)]"
    by code_simp
  show ?thesis
    unfolding e by simp
qed

lemma groupby_size_group_sum:
  "sum_list (map snd (filter (\<lambda>e. fst (fst e) = g) (groupby_size c1 c2 data))) =
     length (filter (\<lambda>r. r c1 = Some g \<and> r c2 \<noteq> None) data)"
proof -
  let ?ks = "group_keys c1 c2 data"
  have "filter (\<lambda>e. fst (fst e) = g) (groupby_size c1 c2 data) =
          map (\<lambda>k. (k, count_list ?ks k)) (filter (\<lambda>k. fst k = g) (sort (remdups ?ks)))"
    by (simp add: groupby_size_def Let_def filter_map comp_def)
  then have "sum_list (map snd (filter (\<lambda>e. fst (fst e) = g) (groupby_size c1 c2 data))) =
          sum_list (map (count_list ?ks) (filter (\<lambda>k. fst k = g) (sort (remdups ?ks))))"
    by (simp add: comp_def)
  also have "\<dots> = length (filter (\<lambda>k. fst k = g) ?ks)"
    by (rule sum_count_list_distinct) auto
  finally show ?thesis
    by (simp add: filter_fst_group_keys)
qed

lemma sort_values_desc_sorted:
  "sorted_wrt (\<lambda>a b. snd b \<le> snd a) (sort_values_desc series)"
proof -
  have "sorted (map snd (sort_key snd (rev series)))"
    by (rule sorted_sort_key)
  then have "sorted_wrt (\<lambda>a b. snd a \<le> snd b) (sort_key snd (rev series))"
    by (simp add: sorted_map)
  then show ?thesis
    by (simp add: sort_values_desc_def sorted_wrt_rev)
qed

lemma set_sort_values_desc: "set (sort_values_desc series) = set series"
  by (simp add: sort_values_desc_def)

lemma groupby_sum_entry:
  assumes "e \<in> set (groupby_sum (groupby_size c1 c2 data))"
  shows "snd e = length (filter (\<lambda>r. r c1 = Some (fst e) \<and> r c2 \<noteq> None) data)"
  using assms by (auto simp: groupby_sum_def groupby_size_group_sum)

lemma map_fst_groupby_sum:
  "map fst (groupby_sum chart) = sort (remdups (map (\<lambda>e. fst (fst e)) chart))"
  by (simp add: groupby_sum_def comp_def)

lemma order_sorted:
  "sorted_wrt (\<lambda>g h. group_total c h data \<le> group_total c g data)
     (order (groupby_size c Recruitment_Status data))"
proof -
  let ?ys = "sort_values_desc (groupby_sum (groupby_size c Recruitment_Status data))"
  have "sorted_wrt (\<lambda>a b. snd b \<le> snd a) ?ys"
    by (rule sort_values_desc_sorted)
  then have "sorted_wrt (\<lambda>a b. group_total c (fst b) data \<le> group_total c (fst a) data) ?ys"
  proof (rule sorted_wrt_mono_rel [rotated])
    fix a b
    assume "a \<in> set ?ys" "b \<in> set ?ys" "snd b \<le> snd a"
    then show "group_total c (fst b) data \<le> group_total c (fst a) data"
      by (simp add: set_sort_values_desc groupby_sum_entry group_total_def)
  qed
  then show ?thesis
    by (simp add: order_def sorted_wrt_map)
qed

lemma order_distinct: "distinct (order chart)"
proof -
  have "mset (map fst (sort_values_desc (groupby_sum chart))) = mset (map fst (groupby_sum chart))"
    by (simp add: sort_values_desc_def)
  then have "distinct (map fst (sort_values_desc (groupby_sum chart))) =
      distinct (map fst (groupby_sum chart))"
    by (rule mset_eq_imp_distinct_iff)
  then show ?thesis
    by (simp add: order_def map_fst_groupby_sum)
qed

lemma order_set: "set (order chart) = (\<lambda>e. fst (fst e)) ` set chart"
proof -
  have "set (order chart) = set (map fst (groupby_sum chart))"
    by (simp add: order_def set_sort_values_desc)
  also have "\<dots> = (\<lambda>e. fst (fst e)) ` set chart"
    unfolding map_fst_groupby_sum by simp
  finally show ?thesis .
qed

text \<open>
  C9. The display order lists each group of the chart once, by descending total of the
  group's counts over all statuses; that total is the number of rows of the group that
  have a status. Nothing is said about groups with equal totals.
\<close>

theorem order_descending:
  "sorted_wrt (\<lambda>g h. group_total Principle h data \<le> group_total Principle g data)
     (order (principle_chart data))
   \<and> distinct (order (principle_chart data))
   \<and> set (order (principle_chart data)) = (\<lambda>e. fst (fst e)) ` set (principle_chart data)"
  unfolding principle_chart_def
  using order_sorted [of Principle data] order_distinct order_set by blast

theorem order_descending_witness:
  "order (principle_chart chart_table) = [''B'', ''A'']
   \<and> group_total Principle ''B'' chart_table = 3
   \<and> group_total Principle ''A'' chart_table = 1"
proof -
  have e: "order (principle_chart chart_table) = [''B'', ''A'']"
    by code_simp
  have b: "group_total Principle ''B'' chart_table = 3"
    by code_simp
  have a: "group_total Principle ''A'' chart_table = 1"
    by code_simp
  show ?thesis
    using order_descending [of chart_table] e a b by simp
qed


section \<open>Properties of the regional chart\<close>

lemma sort_remdups_cong:
  fixes xs ys :: "'a::linorder list"
  assumes "set xs = set ys"
  shows "sort (remdups xs) = sort (remdups ys)"
  by (rule sorted_distinct_set_unique) (simp_all add: assms)

lemma zip_map_same: "zip xs (map f xs) = map (\<lambda>x. (x, f x)) xs"
  by (induction xs) simp_all

lemma map2_map_same: "map2 h (map f xs) (map g xs) = map (\<lambda>x. h (f x) (g x)) xs"
  by (induction xs) simp_all

lemma map_of_groupby_size:
  "(case map_of (groupby_size c1 c2 data) (g, st) of Some n \<Rightarrow> n | None \<Rightarrow> 0) =
     length (filter (\<lambda>r. r c1 = Some g \<and> r c2 = Some st) data)"
proof -
  let ?ks = "group_keys c1 c2 data"
  have m: "map_of (groupby_size c1 c2 data) (g, st) =
        (if (g, st) \<in> set ?ks then Some (count_list ?ks (g, st)) else None)"
    by (simp add: groupby_size_def Let_def map_of_map_restrict restrict_map_def)
  show ?thesis
  proof (cases "(g, st) \<in> set ?ks")
    case True
    then show ?thesis by (simp add: m count_group_keys)
  next
    case False
    then have "count_list ?ks (g, st) = 0" by (simp add: count_list_0_iff)
    with False show ?thesis by (simp add: m count_group_keys)
  qed
qed

lemma regional_unstack:
  "regional (unstack (groupby_size c Recruitment_Status data)) = groups_with_status c data"
proof -
  have "set (map (\<lambda>e. fst (fst e)) (groupby_size c Recruitment_Status data)) =
        set (map fst (group_keys c Recruitment_Status data))"
    by (simp add: groupby_size_def Let_def image_image)
  then show ?thesis
    unfolding unstack_def groups_with_status_def Let_def
    by (simp add: sort_remdups_cong)
qed

lemma frame_get_unstack:
  "frame_get (unstack (groupby_size c Recruitment_Status data)) name dflt =
     (if name \<in> snd ` set (group_keys c Recruitment_Status data)
      then Series (map (\<lambda>g. group_status_count c g name data) (groups_with_status c data))
      else Scalar dflt)"
proof -
  let ?sizes = "groupby_size c Recruitment_Status data"
  let ?cols = "sort (remdups (map (\<lambda>e. snd (fst e)) ?sizes))"
  have idx: "sort (remdups (map (\<lambda>e. fst (fst e)) ?sizes)) = groups_with_status c data"
    using regional_unstack [of c data] by (simp add: unstack_def Let_def)
  have cols: "name \<in> set ?cols \<longleftrightarrow> name \<in> snd ` set (group_keys c Recruitment_Status data)"
    by (simp add: groupby_size_def Let_def image_image)
  have "map_of (status_columns (unstack ?sizes)) name =
      (if name \<in> snd ` set (group_keys c Recruitment_Status data)
       then Some (map (\<lambda>g. group_status_count c g name data) (groups_with_status c data))
       else None)"
    unfolding unstack_def Let_def idx cols [symmetric]
    by (simp add: map_of_map_restrict restrict_map_def map_of_groupby_size
        group_status_count_def del: set_sort set_remdups)
  then show ?thesis
    by (simp add: frame_get_def)
qed

lemma no_status_count:
  assumes "name \<notin> snd ` set (group_keys c Recruitment_Status data)"
  shows "group_status_count c g name data = 0"
proof -
  have "(g, name) \<notin> set (group_keys c Recruitment_Status data)"
    using assms by force
  then have "count_list (group_keys c Recruitment_Status data) (g, name) = 0"
    by (simp add: count_list_0_iff)
  then show ?thesis
    by (simp add: count_group_keys group_status_count_def)
qed

lemma times100_truediv: "times100 (np_truediv rc (oc + rc)) = spec_group_pct oc rc"
  by (simp add: np_truediv_def spec_group_pct_def)

lemma status_occurs:
  "name \<in> snd ` set (group_keys c Recruitment_Status data) \<longleftrightarrow>
     (\<exists>r \<in> set data. r c \<noteq> None \<and> r Recruitment_Status = Some name)"
  by (auto simp: set_group_keys image_iff)

lemma reset_index_unstack:
  "reset_index name (unstack (groupby_size c Recruitment_Status data)) =
     (if name \<in> snd ` set (group_keys c Recruitment_Status data) then Inl ValueError
      else Inr (unstack (groupby_size c Recruitment_Status data)))"
proof -
  have "set (map fst (status_columns (unstack (groupby_size c Recruitment_Status data)))) =
        snd ` set (group_keys c Recruitment_Status data)"
    by (simp add: unstack_def groupby_size_def Let_def image_image comp_def)
  then show ?thesis
    unfolding reset_index_def by simp
qed

lemma regional_chart_series:
  assumes "''OPEN'' \<in> snd ` set (group_keys Regional Recruitment_Status data)
         \<or> ''RECRUIT'' \<in> snd ` set (group_keys Regional Recruitment_Status data)"
    and nv: "''Regional'' \<notin> snd ` set (group_keys Regional Recruitment_Status data)"
  shows "regional_chart data =
     Inr (map (\<lambda>g. (g, spec_group_pct (group_status_count Regional g ''OPEN'' data)
                          (group_status_count Regional g ''RECRUIT'' data)))
            (groups_with_status Regional data))"
proof -
  let ?ks = "group_keys Regional Recruitment_Status data"
  let ?oc = "\<lambda>g. group_status_count Regional g ''OPEN'' data"
  let ?rc = "\<lambda>g. group_status_count Regional g ''RECRUIT'' data"
  let ?idx = "groups_with_status Regional data"
  consider (both) "''OPEN'' \<in> snd ` set ?ks" "''RECRUIT'' \<in> snd ` set ?ks"
    | (recruit) "''OPEN'' \<notin> snd ` set ?ks" "''RECRUIT'' \<in> snd ` set ?ks"
    | (opn) "''OPEN'' \<in> snd ` set ?ks" "''RECRUIT'' \<notin> snd ` set ?ks"
    using assms(1) by blast
  then show ?thesis
  proof cases
    case both
    with nv show ?thesis
      unfolding regional_chart_def reset_index_unstack
      by (simp add: frame_get_unstack regional_unstack map2_map_same zip_map_same
          times100_truediv comp_def)
  next
    case recruit
    have "?oc g = 0" for g
      using recruit(1) by (rule no_status_count)
    with recruit nv show ?thesis
      unfolding regional_chart_def reset_index_unstack
      using times100_truediv [of _ 0]
      by (simp add: frame_get_unstack regional_unstack map2_map_same zip_map_same comp_def)
  next
    case opn
    have "?rc g = 0" for g
      using opn(2) by (rule no_status_count)
    with opn nv show ?thesis
      unfolding regional_chart_def reset_index_unstack
      using times100_truediv [of 0]
      by (simp add: frame_get_unstack regional_unstack zip_map_same comp_def)
  qed
qed

lemma regional_chart_value_error:
  assumes "''Regional'' \<in> snd ` set (group_keys Regional Recruitment_Status data)"
  shows "regional_chart data = Inl ValueError"
  using assms
  unfolding regional_chart_def reset_index_unstack
  by simp

lemma regional_chart_raises:
  assumes "''OPEN'' \<notin> snd ` set (group_keys Regional Recruitment_Status data)"
    and "''RECRUIT'' \<notin> snd ` set (group_keys Regional Recruitment_Status data)"
    and "''Regional'' \<notin> snd ` set (group_keys Regional Recruitment_Status data)"
  shows "regional_chart data = Inl ZeroDivisionError"
  using assms
  unfolding regional_chart_def reset_index_unstack
  by (simp add: frame_get_unstack)

lemma set_groups_with_status:
  "set (groups_with_status c data) =
     {g. \<exists>r \<in> set data. r c = Some g \<and> r Recruitment_Status \<noteq> None}"
proof (rule set_eqI)
  fix g
  have "g \<in> set (groups_with_status c data) \<longleftrightarrow>
        (\<exists>st. (g, st) \<in> set (group_keys c Recruitment_Status data))"
    by (force simp: groups_with_status_def)
  also have "\<dots> \<longleftrightarrow> (\<exists>st. \<exists>r \<in> set data. r c = Some g \<and> r Recruitment_Status = Some st)"
    by (simp add: set_group_keys)
  also have "\<dots> \<longleftrightarrow> (\<exists>r \<in> set data. r c = Some g \<and> r Recruitment_Status \<noteq> None)"
    by blast
  finally show "g \<in> set (groups_with_status c data) \<longleftrightarrow>
      g \<in> {g. \<exists>r \<in> set data. r c = Some g \<and> r Recruitment_Status \<noteq> None}"
    by simp
qed

text \<open>
  C4, in the form that holds of the code. When some row with a Regional value has status
  "OPEN" or "RECRUIT", and no row with a Regional value has the text "Regional" as its
  status, \<open>regional_chart\<close> yields one entry for each Regional value that has a row with a
  status, in ascending order, with the percentage \<open>recruit / (open + recruit) * 100\<close>;
  a group with no OPEN and no RECRUIT row is among them, with a percentage that is not a
  number.
\<close>

theorem regional_chart_groups:
  assumes "\<exists>r \<in> set data. r Regional \<noteq> None
             \<and> (r Recruitment_Status = Some ''OPEN'' \<or> r Recruitment_Status = Some ''RECRUIT'')"
    and "\<not> (\<exists>r \<in> set data. r Regional \<noteq> None \<and> r Recruitment_Status = Some ''Regional'')"
  shows "regional_chart data =
     Inr (map (\<lambda>g. (g, spec_group_pct (group_status_count Regional g ''OPEN'' data)
                          (group_status_count Regional g ''RECRUIT'' data)))
            (groups_with_status Regional data))
   \<and> set (groups_with_status Regional data) =
       {g. \<exists>r \<in> set data. r Regional = Some g \<and> r Recruitment_Status \<noteq> None}"
proof -
  from assms(1) have "''OPEN'' \<in> snd ` set (group_keys Regional Recruitment_Status data)
         \<or> ''RECRUIT'' \<in> snd ` set (group_keys Regional Recruitment_Status data)"
    unfolding status_occurs by blast
  moreover from assms(2)
  have "''Regional'' \<notin> snd ` set (group_keys Regional Recruitment_Status data)"
    unfolding status_occurs by blast
  ultimately show ?thesis
    using regional_chart_series set_groups_with_status by blast
qed

theorem regional_chart_groups_witness:
  "region_table ! 0 \<in> set region_table
   \<and> (region_table ! 0) Regional \<noteq> None
   \<and> (region_table ! 0) Recruitment_Status = Some ''OPEN''
   \<and> status_count ''Regional'' region_table = 0
   \<and> group_status_count Regional ''A'' ''OPEN'' region_table = 3
   \<and> group_status_count Regional ''A'' ''RECRUIT'' region_table = 2
   \<and> regional_chart region_table = Inr [(''A'', Finite 40), (''B'', NaN)]"
proof -
  have m: "region_table ! 0 \<in> set region_table"
    by (simp add: region_table_def)
  have r: "(region_table ! 0) Regional \<noteq> None"
    by (simp add: region_table_def chart_row_def)
  have s: "(region_table ! 0) Recruitment_Status = Some ''OPEN''"
    by (simp add: region_table_def chart_row_def)
  have z: "status_count ''Regional'' region_table = 0"
    by (simp add: status_count_def region_table_def chart_row_def)
  have h: "\<exists>r \<in> set region_table. r Regional \<noteq> None
             \<and> (r Recruitment_Status = Some ''OPEN'' \<or> r Recruitment_Status = Some ''RECRUIT'')"
    using m r s by blast
  have n: "\<not> (\<exists>r \<in> set region_table. r Regional \<noteq> None
             \<and> r Recruitment_Status = Some ''Regional'')"
    by (simp add: region_table_def chart_row_def)
  have g: "groups_with_status Regional region_table = [''A'', ''B'']"
    by code_simp
  have c: "group_status_count Regional ''A'' ''OPEN'' region_table = 3"
    "group_status_count Regional ''A'' ''RECRUIT'' region_table = 2"
    "group_status_count Regional ''B'' ''OPEN'' region_table = 0"
    "group_status_count Regional ''B'' ''RECRUIT'' region_table = 0"
    by code_simp+
  have "regional_chart region_table = Inr [(''A'', Finite 40), (''B'', NaN)]"
    using regional_chart_groups [OF h n] by (simp add: g c spec_group_pct_def)
  with m r s z c show ?thesis by simp
qed

text \<open>
  C4 as stated fails on three inputs. A region whose only row has no status is dropped
  with that row by the grouping, although its OPEN and RECRUIT counts are zero. When
  no row has status "OPEN" or "RECRUIT", both \<^verbatim>\<open>temp.get\<close> calls return the integer 0
  and line 213 raises instead of giving a percentage that is not a number. And when a
  row's status is the text "Regional", line 209 raises and no percentage is computed.
\<close>

theorem regional_chart_groups_counterexample:
  "regional_chart [chart_row Regional ''A'' ''OPEN'', no_status_row Regional ''B''] =
     Inr [(''A'', Finite 0)]
   \<and> group_status_count Regional ''B'' ''OPEN''
       [chart_row Regional ''A'' ''OPEN'', no_status_row Regional ''B''] = 0
   \<and> group_status_count Regional ''B'' ''RECRUIT''
       [chart_row Regional ''A'' ''OPEN'', no_status_row Regional ''B''] = 0
   \<and> regional_chart [chart_row Regional ''A'' ''HOLD''] = Inl ZeroDivisionError
   \<and> regional_chart [chart_row Regional ''A'' ''Regional'', chart_row Regional ''A'' ''OPEN'']
       = Inl ValueError"
  by code_simp

end
